theory Spec2Isabelle
  imports Complex_Main
begin

section \<open>The HHG statistic (\<^verbatim>\<open>mgc/independence/hhg.py\<close>)\<close>

text \<open>
  A two-dimensional ndarray is the list of its rows. The entries of a distance matrix are
  only ever compared with \<open>\<le>\<close>, so they are modelled as reals (floats without NaN; the
  input validation rejects NaN). The cell counts are Python integers. The entries of \<open>S\<close>
  and the statistic are float64 in the source and exact reals here: rounding is not
  modelled. Compiled by numba the integers are 64 bits wide; the largest product,
  \<open>(n-2) * (t12*t21 - t11*t22)\<^sup>2\<close>, is below \<open>n\<^sup>5 / 16\<close> and fits for \<open>n\<close> up to ten thousand,
  so the integers are unbounded here.
\<close>

type_synonym array = "real list list"

text \<open>\<^verbatim>\<open>row <= v\<close>: a boolean array, used in arithmetic as an array of 0 and 1.\<close>

definition row_le :: "real list \<Rightarrow> real \<Rightarrow> int list" where
  "row_le row v = map (\<lambda>d. of_bool (d \<le> v)) row"

text \<open>\<^verbatim>\<open>a * b\<close> on two arrays, elementwise.\<close>

definition times_arr :: "int list \<Rightarrow> int list \<Rightarrow> int list" where
  "times_arr a b = map2 (\<lambda>p q. p * q) a b"

text \<open>\<^verbatim>\<open>1 - a\<close> on an array, elementwise.\<close>

definition one_minus :: "int list \<Rightarrow> int list" where
  "one_minus a = map (\<lambda>p. 1 - p) a"

text \<open>
  The body of the two loops of \<^verbatim>\<open>_hhg\<close> for one pair \<open>(i, j)\<close>, on the matrix \<open>S\<close>
  built so far: \<open>S[i, j]\<close> is assigned only when \<open>i \<noteq> j\<close> and \<open>denom > 0\<close>.
\<close>

definition hhg_body :: "nat \<Rightarrow> array \<Rightarrow> array \<Rightarrow> nat \<Rightarrow> nat \<Rightarrow> array \<Rightarrow> array" where
  "hhg_body n distx disty i j S =
     (if i \<noteq> j then
        (let a = row_le (distx ! i) (distx ! i ! j);
             b = row_le (disty ! i) (disty ! i ! j);
             t11 = sum_list (times_arr a b) - 2;
             t12 = sum_list (times_arr a (one_minus b));
             t21 = sum_list (times_arr (one_minus a) b);
             t22 = sum_list (times_arr (one_minus a) (one_minus b));
             denom = (t11 + t12) * (t21 + t22) * (t11 + t21) * (t12 + t22)
         in if denom > 0
            then S[i := (S ! i)[j := real_of_int ((int n - 2) * (t12 * t21 - t11 * t22) ^ 2)
                                      / real_of_int denom]]
            else S)
      else S)"

text \<open>
  \<^verbatim>\<open>_hhg(distx, disty)\<close>: \<open>S\<close> starts as the \<open>n \<times> n\<close> zero matrix, the loops run over
  \<open>range(n)\<close> twice, and the statistic is the sum of all entries of \<open>S\<close>. The function is
  called with two \<open>n \<times> n\<close> arrays; the theorems below assume that shape.
\<close>

definition hhg :: "array \<Rightarrow> array \<Rightarrow> real" where
  "hhg distx disty =
     (let n = length distx;
          S0 = replicate n (replicate n 0);
          S = fold (\<lambda>i. fold (\<lambda>j. hhg_body n distx disty i j) [0..<n]) [0..<n] S0
      in sum_list (map sum_list S))"

section \<open>Python values, exceptions and calls\<close>

datatype error = ValueError | TypeError | RuntimeError | AttributeError | ZeroDivisionError

text \<open>A float64 that may be NaN: the entries of an input array, and the p-value.\<close>

datatype npfloat = Float real | NaN

text \<open>
  The arguments as the caller passes them: \<open>x\<close> and \<open>y\<close> are a two-dimensional ndarray or
  some other object, \<open>reps\<close> is an int or some other object, and a metric
  (\<^verbatim>\<open>compute_distance\<close>, \<^verbatim>\<open>compute_kernel\<close>) is a function on arrays, \<^verbatim>\<open>None\<close>, or some
  other object, of which only the truth value matters.
\<close>

datatype pyarg = Ndarray "npfloat list list" | NotArray

datatype pyreps = IntReps int | NonInt

datatype metric = Callable "array \<Rightarrow> array" | MetricNone | NotCallable bool

fun truthy :: "metric \<Rightarrow> bool" where
  "truthy (Callable f) = True"
| "truthy MetricNone = False"
| "truthy (NotCallable b) = b"

text \<open>\<^verbatim>\<open>m(x)\<close>: calling an object that is not callable raises TypeError.\<close>

fun call_metric :: "metric \<Rightarrow> array \<Rightarrow> error + array" where
  "call_metric (Callable f) x = Inr (f x)"
| "call_metric MetricNone x = Inl TypeError"
| "call_metric (NotCallable b) x = Inl TypeError"

text \<open>
  Binding the keyword arguments of a call to the keyword parameters of a function: a
  keyword that names no parameter raises TypeError.
\<close>

definition bind_kwargs :: "string list \<Rightarrow> (string \<times> 'v) list \<Rightarrow> error + (string \<rightharpoonup> 'v)" where
  "bind_kwargs params kwargs =
     (if list_all (\<lambda>k. k \<in> set params) (map fst kwargs) then Inr (map_of kwargs)
      else Inl TypeError)"

text \<open>An array of reals as an argument.\<close>

definition as_arg :: "array \<Rightarrow> pyarg" where
  "as_arg x = Ndarray (map (map Float) x)"

text \<open>
  \<^verbatim>\<open>a / b\<close> of a numpy integer by a Python int: \<open>0 / 0\<close> is NaN (with a warning). The one
  call site has \<open>a = 0\<close> whenever \<open>b = 0\<close>.
\<close>

definition true_divide :: "int \<Rightarrow> int \<Rightarrow> npfloat" where
  "true_divide a b = (if b = 0 then NaN else Float (real_of_int a / real_of_int b))"

section \<open>The collaborators that are not part of the sources\<close>

text \<open>
  The random generator, the worker pool and the code of the repository that the source
  files import but that is not among them are parameters of the model, collected in one
  record. \<open>'w\<close> is the state of numpy's global random generator; \<open>'d\<close> is the type of the
  instances of the independence tests whose classes are absent (\<^verbatim>\<open>Dcorr\<close>, \<^verbatim>\<open>CCA\<close>, \<^verbatim>\<open>RV\<close>).
  \<^item> \<open>permutation\<close> is \<^verbatim>\<open>np.random.permutation\<close>: a copy of the array with its rows
    shuffled, and the generator's next state;
  \<^item> \<open>pool_state w i\<close> is the generator state with which a worker process of a pool
    started at state \<open>w\<close> runs the call of index \<open>i\<close>;
  \<^item> \<open>euclidean\<close> and \<open>rbf_kernel\<close> are the default metrics;
  \<^item> \<open>k_sample_transform\<close> is the function of \<^verbatim>\<open>mgc/ksample/_utils.py\<close>;
  \<^item> \<open>ext_new\<close>, \<open>ext_statistic\<close> and \<open>ext_test\<close> are the constructor call, \<^verbatim>\<open>_statistic\<close>
    and \<^verbatim>\<open>test\<close> of the absent classes; an argument of \<^verbatim>\<open>test\<close> that the call leaves to
    its default is \<open>None\<close>.
\<close>

datatype ext_class = Dcorr | CCA | RV

record ('w, 'd) env =
  permutation :: "array \<Rightarrow> 'w \<Rightarrow> array \<times> 'w"
  pool_state :: "'w \<Rightarrow> nat \<Rightarrow> 'w"
  euclidean :: "array \<Rightarrow> array"
  rbf_kernel :: "array \<Rightarrow> array"
  k_sample_transform :: "array list \<Rightarrow> error + array \<times> array"
  ext_new :: "ext_class \<Rightarrow> (string \<times> metric) list \<Rightarrow> error + 'd"
  ext_statistic :: "'d \<Rightarrow> array \<Rightarrow> array \<Rightarrow> 'w \<Rightarrow> (error + real) \<times> 'd \<times> 'w"
  ext_test :: "'d \<Rightarrow> pyarg \<Rightarrow> pyarg \<Rightarrow> pyreps option \<Rightarrow> int option \<Rightarrow> 'w
                 \<Rightarrow> (error + real \<times> npfloat) \<times> 'd \<times> 'w"

text \<open>
  \<^verbatim>\<open>scipy._lib._util.MapWrapper(workers)\<close> chooses the builtin \<^verbatim>\<open>map\<close> for \<open>1\<close>, the \<^verbatim>\<open>map\<close>
  of a process pool for \<open>-1\<close> and for an int above \<open>1\<close>, and raises RuntimeError otherwise.
\<close>

datatype mapfunc = Builtin_map | Pool_map

definition MapWrapper :: "int \<Rightarrow> error + mapfunc" where
  "MapWrapper workers =
     (if workers = - 1 then Inr Pool_map
      else if workers = 1 then Inr Builtin_map
      else if workers > 1 then Inr Pool_map
      else Inl RuntimeError)"

text \<open>
  \<^verbatim>\<open>list(map(f, range(n)))\<close> in the calling process: the calls run in order on the object
  and the generator, and the first exception ends the run.
\<close>

fun builtin_map ::
  "(nat \<Rightarrow> 's \<Rightarrow> 'w \<Rightarrow> (error + real) \<times> 's \<times> 'w) \<Rightarrow> nat list \<Rightarrow> 's \<Rightarrow> 'w
     \<Rightarrow> (error + real list) \<times> 's \<times> 'w" where
  "builtin_map f [] self w = (Inr [], self, w)"
| "builtin_map f (i # is) self w =
     (case f i self w of
        (Inl e, self1, w1) \<Rightarrow> (Inl e, self1, w1)
      | (Inr v, self1, w1) \<Rightarrow>
          (case builtin_map f is self1 w1 of
             (Inl e, self2, w2) \<Rightarrow> (Inl e, self2, w2)
           | (Inr vs, self2, w2) \<Rightarrow> (Inr (v # vs), self2, w2)))"

text \<open>
  \<^verbatim>\<open>pool.map(f, range(n))\<close>: every call runs in a worker process on a pickled copy of the
  object, with the generator state of that worker; what a call writes to its copy and to
  its generator is lost. The results come back in the order of the indices. When calls
  fail, the model re-raises the exception of the first of them.
\<close>

fun pool_map ::
  "(nat \<Rightarrow> 's \<Rightarrow> 'w \<Rightarrow> (error + real) \<times> 's \<times> 'w) \<Rightarrow> nat list \<Rightarrow> 's \<Rightarrow> (nat \<Rightarrow> 'w)
     \<Rightarrow> error + real list" where
  "pool_map f [] self ws = Inr []"
| "pool_map f (i # is) self ws =
     (case f i self (ws i) of
        (Inl e, self1, w1) \<Rightarrow> Inl e
      | (Inr v, self1, w1) \<Rightarrow>
          (case pool_map f is self ws of
             Inl e \<Rightarrow> Inl e
           | Inr vs \<Rightarrow> Inr (v # vs)))"

definition call_mapwrapper ::
  "('w, 'd) env \<Rightarrow> mapfunc \<Rightarrow> (nat \<Rightarrow> 's \<Rightarrow> 'w \<Rightarrow> (error + real) \<times> 's \<times> 'w) \<Rightarrow> nat list
     \<Rightarrow> 's \<Rightarrow> 'w \<Rightarrow> (error + real list) \<times> 's \<times> 'w" where
  "call_mapwrapper E mapwrapper f idxs self w =
     (case mapwrapper of
        Builtin_map \<Rightarrow> builtin_map f idxs self w
      | Pool_map \<Rightarrow> (pool_map f idxs self (pool_state E w), self, w))"

section \<open>The base class of the independence tests (\<^verbatim>\<open>mgc/independence/base.py\<close>)\<close>

text \<open>
  The attributes of an instance. \<open>None\<close> is Python's \<^verbatim>\<open>None\<close> for \<open>stat\<close> and \<open>pvalue\<close>
  (\<^verbatim>\<open>__init__\<close> sets both to it), and an attribute that was never assigned for the others:
  \<open>x\<close>, \<open>y\<close> and \<open>null_dist\<close> are first assigned by \<^verbatim>\<open>test\<close>.
\<close>

record IndependenceTest =
  stat :: "real option"
  pvalue :: "npfloat option"
  compute_distance :: "metric option"
  self_x :: "array option"
  self_y :: "array option"
  null_dist :: "real list option"

text \<open>The abstract method \<^verbatim>\<open>_statistic(self, x, y)\<close>, which a subclass supplies.\<close>

type_synonym ('s, 'w) statistic = "'s \<Rightarrow> array \<Rightarrow> array \<Rightarrow> 'w \<Rightarrow> (error + real) \<times> 's \<times> 'w"

text \<open>\<^verbatim>\<open>IndependenceTest._perm_stat(self, index)\<close>\<close>

definition IndependenceTest_perm_stat ::
  "('w, 'd) env \<Rightarrow> ('a IndependenceTest_scheme, 'w) statistic \<Rightarrow> 'a IndependenceTest_scheme
     \<Rightarrow> nat \<Rightarrow> 'w \<Rightarrow> (error + real) \<times> 'a IndependenceTest_scheme \<times> 'w" where
  "IndependenceTest_perm_stat E statistic self index w =
     (case self_x self of
        None \<Rightarrow> (Inl AttributeError, self, w)
      | Some x \<Rightarrow>
          (case permutation E x w of (permx, w1) \<Rightarrow>
            (case self_y self of
               None \<Rightarrow> (Inl AttributeError, self, w1)
             | Some y \<Rightarrow>
                 (case permutation E y w1 of (permy, w2) \<Rightarrow>
                    statistic self permx permy w2))))"

text \<open>
  \<^verbatim>\<open>IndependenceTest.test(self, x, y, reps, workers)\<close>. The local variables \<^verbatim>\<open>stat\<close>,
  \<^verbatim>\<open>null_dist\<close> and \<^verbatim>\<open>pvalue\<close> of the source are \<open>st\<close>, \<open>nd\<close> and \<open>pv\<close>, the names being those of
  the attributes. \<^verbatim>\<open>range(reps)\<close> raises TypeError for a \<open>reps\<close> that is not an int, and is
  empty for a negative one.
\<close>

definition IndependenceTest_test ::
  "('w, 'd) env \<Rightarrow> ('a IndependenceTest_scheme, 'w) statistic \<Rightarrow> 'a IndependenceTest_scheme
     \<Rightarrow> array \<Rightarrow> array \<Rightarrow> pyreps \<Rightarrow> int \<Rightarrow> 'w
     \<Rightarrow> (error + real \<times> npfloat) \<times> 'a IndependenceTest_scheme \<times> 'w" where
  "IndependenceTest_test E statistic self x y reps workers w =
     (let self1 = self\<lparr>self_x := Some x, self_y := Some y\<rparr> in
      case statistic self1 x y w of
        (Inl e, self2, w2) \<Rightarrow> (Inl e, self2, w2)
      | (Inr st, self2, w2) \<Rightarrow>
     (case MapWrapper workers of
        Inl e \<Rightarrow> (Inl e, self2, w2)
      | Inr mapwrapper \<Rightarrow>
     (case reps of
        NonInt \<Rightarrow> (Inl TypeError, self2, w2)
      | IntReps r \<Rightarrow>
     (case call_mapwrapper E mapwrapper (\<lambda>i s. IndependenceTest_perm_stat E statistic s i)
             [0..<nat r] self2 w2 of
        (Inl e, self3, w3) \<Rightarrow> (Inl e, self3, w3)
      | (Inr nd, self3, w3) \<Rightarrow>
     (let self4 = self3\<lparr>null_dist := Some nd\<rparr>;
          pv = true_divide (int (length (filter (\<lambda>v. v \<ge> st) nd))) r
      in if pv = Float 0
         then (if r = 0 then (Inl ZeroDivisionError, self4, w3)
               else (Inr (st, Float (1 / real_of_int r)),
                     self4\<lparr>pvalue := Some (Float (1 / real_of_int r))\<rparr>, w3))
         else (Inr (st, pv), self4\<lparr>pvalue := Some pv\<rparr>, w3))))))"

section \<open>The HHG test (\<^verbatim>\<open>mgc/independence/hhg.py\<close>)\<close>

record HHG = IndependenceTest +
  is_distance :: bool

text \<open>\<^verbatim>\<open>HHG.__init__(self, compute_distance)\<close>\<close>

definition HHG_init :: "metric \<Rightarrow> HHG" where
  "HHG_init m =
     \<lparr>stat = None, pvalue = None, compute_distance = Some m, self_x = None, self_y = None,
      null_dist = None, is_distance = (if \<not> truthy m then True else False)\<rparr>"

text \<open>\<^verbatim>\<open>HHG(**kwargs)\<close>: the one keyword parameter is \<^verbatim>\<open>compute_distance=euclidean\<close>.\<close>

definition HHG_new :: "('w, 'd) env \<Rightarrow> (string \<times> metric) list \<Rightarrow> error + HHG" where
  "HHG_new E kwargs =
     (case bind_kwargs [''compute_distance''] kwargs of
        Inl e \<Rightarrow> Inl e
      | Inr b \<Rightarrow>
          Inr (HHG_init (case b ''compute_distance'' of
                           None \<Rightarrow> Callable (euclidean E)
                         | Some m \<Rightarrow> m)))"

text \<open>\<^verbatim>\<open>HHG._statistic(self, x, y)\<close>\<close>

definition HHG_statistic :: "('a HHG_scheme, 'w) statistic" where
  "HHG_statistic self x y w =
     (if \<not> is_distance self then
        (case compute_distance self of
           None \<Rightarrow> (Inl AttributeError, self, w)
         | Some m \<Rightarrow>
             (case call_metric m x of
                Inl e \<Rightarrow> (Inl e, self, w)
              | Inr distx \<Rightarrow>
                  (case call_metric m y of
                     Inl e \<Rightarrow> (Inl e, self, w)
                   | Inr disty \<Rightarrow>
                       (Inr (hhg distx disty), self\<lparr>stat := Some (hhg distx disty)\<rparr>, w))))
      else (Inr (hhg x y), self\<lparr>stat := Some (hhg x y)\<rparr>, w))"

text \<open>
  Modelled from the spec: \<^verbatim>\<open>_CheckInputs\<close> of \<^verbatim>\<open>mgc/independence/_utils.py\<close>, which is not
  among the sources. By the error taxonomy of the spec it raises a ValueError when \<open>x\<close> or
  \<open>y\<close> is not a numeric array, when their row counts differ, when there are fewer than 3
  rows, when a value is NaN, when \<open>reps\<close> is not a positive integer, and when the metric is
  neither a function nor \<^verbatim>\<open>None\<close>; otherwise it returns the two arrays as float64. The
  warning for \<open>reps\<close> below 1000 is not an error and has no place in the model.
\<close>

definition contains_nan :: "npfloat list list \<Rightarrow> bool" where
  "contains_nan a = list_ex (\<lambda>row. list_ex (\<lambda>v. v = NaN) row) a"

fun to_real :: "npfloat \<Rightarrow> real" where
  "to_real (Float r) = r"
| "to_real NaN = 0"

definition CheckInputs :: "pyarg \<Rightarrow> pyarg \<Rightarrow> pyreps \<Rightarrow> metric \<Rightarrow> error + array \<times> array" where
  "CheckInputs x y reps m =
     (case x of
        NotArray \<Rightarrow> Inl ValueError
      | Ndarray ax \<Rightarrow>
     (case y of
        NotArray \<Rightarrow> Inl ValueError
      | Ndarray ay \<Rightarrow>
          if contains_nan ax \<or> contains_nan ay then Inl ValueError
          else if length ax \<noteq> length ay then Inl ValueError
          else if length ax < 3 then Inl ValueError
          else if (case reps of NonInt \<Rightarrow> True | IntReps r \<Rightarrow> r < 1) then Inl ValueError
          else if (case m of NotCallable b \<Rightarrow> True | MetricNone \<Rightarrow> False | Callable f \<Rightarrow> False)
               then Inl ValueError
          else Inr (map (map to_real) ax, map (map to_real) ay)))"

text \<open>
  Modelled from the spec: \<^verbatim>\<open>check_xy_distmat\<close> of \<^verbatim>\<open>mgc/_utils.py\<close>, which is not among the
  sources. By the spec it validates that both arrays are square and symmetric.
\<close>

definition is_square :: "nat \<Rightarrow> array \<Rightarrow> bool" where
  "is_square n d \<longleftrightarrow> length d = n \<and> (\<forall>r \<in> set d. length r = n)"

definition is_symmetric :: "array \<Rightarrow> bool" where
  "is_symmetric d \<longleftrightarrow> (\<forall>i < length d. \<forall>j < length d. d ! i ! j = d ! j ! i)"

definition check_xy_distmat :: "array \<Rightarrow> array \<Rightarrow> error + unit" where
  "check_xy_distmat x y =
     (if is_square (length x) x \<and> is_square (length y) y \<and> is_symmetric x \<and> is_symmetric y
      then Inr () else Inl ValueError)"

text \<open>\<^verbatim>\<open>HHG.test(self, x, y, reps, workers)\<close>\<close>

definition HHG_test ::
  "('w, 'd) env \<Rightarrow> 'a HHG_scheme \<Rightarrow> pyarg \<Rightarrow> pyarg \<Rightarrow> pyreps \<Rightarrow> int \<Rightarrow> 'w
     \<Rightarrow> (error + real \<times> npfloat) \<times> 'a HHG_scheme \<times> 'w" where
  "HHG_test E self x y reps workers w =
     (case compute_distance self of
        None \<Rightarrow> (Inl AttributeError, self, w)
      | Some m \<Rightarrow>
     (case CheckInputs x y reps m of
        Inl e \<Rightarrow> (Inl e, self, w)
      | Inr (x', y') \<Rightarrow>
     (case (if is_distance self then check_xy_distmat x' y' else Inr ()) of
        Inl e \<Rightarrow> (Inl e, self, w)
      | Inr u \<Rightarrow> IndependenceTest_test E HHG_statistic self x' y' reps workers w)))"

section \<open>The Hsic test (\<^verbatim>\<open>mgc/independence/hsic.py\<close>)\<close>

record Hsic = IndependenceTest +
  compute_kernel :: metric

text \<open>
  \<^verbatim>\<open>Hsic.__init__(self, compute_kernel)\<close> does not call the initialiser of the base class:
  the instance has no attribute \<^verbatim>\<open>compute_distance\<close>.
\<close>

definition Hsic_init :: "metric \<Rightarrow> Hsic" where
  "Hsic_init k =
     \<lparr>stat = None, pvalue = None, compute_distance = None, self_x = None, self_y = None,
      null_dist = None, compute_kernel = k\<rparr>"

text \<open>\<^verbatim>\<open>Hsic(**kwargs)\<close>: the one keyword parameter is \<^verbatim>\<open>compute_kernel=rbf_kernel\<close>.\<close>

definition Hsic_new :: "('w, 'd) env \<Rightarrow> (string \<times> metric) list \<Rightarrow> error + Hsic" where
  "Hsic_new E kwargs =
     (case bind_kwargs [''compute_kernel''] kwargs of
        Inl e \<Rightarrow> Inl e
      | Inr b \<Rightarrow>
          Inr (Hsic_init (case b ''compute_kernel'' of
                            None \<Rightarrow> Callable (rbf_kernel E)
                          | Some m \<Rightarrow> m)))"

text \<open>\<^verbatim>\<open>Hsic._statistic(self, x, y)\<close>: a whole \<^verbatim>\<open>Dcorr\<close> test with the default \<open>reps\<close> and
  \<open>workers\<close>, of which the statistic is kept.\<close>

definition Hsic_statistic ::
  "('w, 'd) env \<Rightarrow> 'a Hsic_scheme \<Rightarrow> pyarg \<Rightarrow> pyarg \<Rightarrow> 'w \<Rightarrow> (error + real) \<times> 'a Hsic_scheme \<times> 'w" where
  "Hsic_statistic E self x y w =
     (case ext_new E Dcorr [(''compute_distance'', compute_kernel self)] of
        Inl e \<Rightarrow> (Inl e, self, w)
      | Inr dcorr \<Rightarrow>
          (case ext_test E dcorr x y None None w of
             (Inl e, dcorr1, w1) \<Rightarrow> (Inl e, self, w1)
           | (Inr (st, pv), dcorr1, w1) \<Rightarrow> (Inr st, self\<lparr>stat := Some st\<rparr>, w1)))"

text \<open>\<^verbatim>\<open>Hsic.test(self, x, y, reps, workers)\<close>\<close>

definition Hsic_test ::
  "('w, 'd) env \<Rightarrow> 'a Hsic_scheme \<Rightarrow> pyarg \<Rightarrow> pyarg \<Rightarrow> pyreps \<Rightarrow> int \<Rightarrow> 'w
     \<Rightarrow> (error + real \<times> npfloat) \<times> 'a Hsic_scheme \<times> 'w" where
  "Hsic_test E self x y reps workers w =
     (case ext_new E Dcorr [(''compute_distance'', compute_kernel self)] of
        Inl e \<Rightarrow> (Inl e, self, w)
      | Inr dcorr \<Rightarrow>
          (case ext_test E dcorr x y (Some reps) (Some workers) w of
             (Inl e, dcorr1, w1) \<Rightarrow> (Inl e, self, w1)
           | (Inr (st, pv), dcorr1, w1) \<Rightarrow>
               (Inr (st, pv), self\<lparr>stat := Some st, pvalue := Some pv\<rparr>, w1)))"

section \<open>The base class of the k-sample tests (\<^verbatim>\<open>mgc/ksample/base.py\<close>)\<close>

text \<open>
  The class object passed as \<^verbatim>\<open>indep_test\<close>, and the instance made of it. Calling a
  class binds the keyword arguments to the parameters of its \<^verbatim>\<open>__init__\<close>.
\<close>

datatype indep_class = HHG_class | Hsic_class | Ext_class ext_class

datatype 'd indep_obj = HHG_obj HHG | Hsic_obj Hsic | Ext_obj 'd

definition indep_new ::
  "('w, 'd) env \<Rightarrow> indep_class \<Rightarrow> (string \<times> metric) list \<Rightarrow> error + 'd indep_obj" where
  "indep_new E cls kwargs =
     (case cls of
        HHG_class \<Rightarrow> (case HHG_new E kwargs of Inl e \<Rightarrow> Inl e | Inr h \<Rightarrow> Inr (HHG_obj h))
      | Hsic_class \<Rightarrow> (case Hsic_new E kwargs of Inl e \<Rightarrow> Inl e | Inr h \<Rightarrow> Inr (Hsic_obj h))
      | Ext_class c \<Rightarrow> (case ext_new E c kwargs of Inl e \<Rightarrow> Inl e | Inr d \<Rightarrow> Inr (Ext_obj d)))"

text \<open>\<^verbatim>\<open>obj._statistic(u, v)\<close>, by the class of \<open>obj\<close>.\<close>

definition indep_statistic :: "('w, 'd) env \<Rightarrow> ('d indep_obj, 'w) statistic" where
  "indep_statistic E obj u v w =
     (case obj of
        HHG_obj h \<Rightarrow> (case HHG_statistic h u v w of (r, h1, w1) \<Rightarrow> (r, HHG_obj h1, w1))
      | Hsic_obj h \<Rightarrow>
          (case Hsic_statistic E h (as_arg u) (as_arg v) w of (r, h1, w1) \<Rightarrow> (r, Hsic_obj h1, w1))
      | Ext_obj d \<Rightarrow> (case ext_statistic E d u v w of (r, d1, w1) \<Rightarrow> (r, Ext_obj d1, w1)))"

record 'd KSampleTest =
  stat :: "real option"
  pvalue :: "npfloat option"
  compute_distance :: metric
  indep_test :: "'d indep_obj"
  self_u :: "array option"
  self_v :: "array option"
  null_dist :: "real list option"

text \<open>
  \<^verbatim>\<open>KSampleTest.__init__(self, indep_test, compute_distance)\<close>, as the constructor of a
  concrete subclass runs it. An exception leaves no instance.
\<close>

definition KSampleTest_init ::
  "('w, 'd) env \<Rightarrow> indep_class \<Rightarrow> metric \<Rightarrow> error + 'd KSampleTest" where
  "KSampleTest_init E cls m =
     (let dist_tests = [Ext_class Dcorr, HHG_class, Hsic_class] in
      case (if cls \<in> set dist_tests then indep_new E cls [(''compute_distance'', m)]
            else indep_new E cls []) of
        Inl e \<Rightarrow> Inl e
      | Inr obj \<Rightarrow>
          Inr \<lparr>stat = None, pvalue = None, compute_distance = m, indep_test = obj,
               self_u = None, self_v = None, null_dist = None\<rparr>)"

text \<open>\<^verbatim>\<open>KSampleTest._perm_stat(self, index)\<close>\<close>

definition KSampleTest_perm_stat ::
  "('w, 'd) env \<Rightarrow> 'd KSampleTest \<Rightarrow> nat \<Rightarrow> 'w \<Rightarrow> (error + real) \<times> 'd KSampleTest \<times> 'w" where
  "KSampleTest_perm_stat E self index w =
     (case self_u self of
        None \<Rightarrow> (Inl AttributeError, self, w)
      | Some u \<Rightarrow>
          (case permutation E u w of (permu, w1) \<Rightarrow>
            (case self_v self of
               None \<Rightarrow> (Inl AttributeError, self, w1)
             | Some v \<Rightarrow>
                 (case permutation E v w1 of (permv, w2) \<Rightarrow>
                   (case indep_statistic E (indep_test self) permu permv w2 of
                      (r, obj, w3) \<Rightarrow> (r, self\<lparr>indep_test := obj\<rparr>, w3))))))"

text \<open>\<^verbatim>\<open>KSampleTest.test(self, inputs, reps, workers)\<close>\<close>

definition KSampleTest_test ::
  "('w, 'd) env \<Rightarrow> 'd KSampleTest \<Rightarrow> array list \<Rightarrow> pyreps \<Rightarrow> int \<Rightarrow> 'w
     \<Rightarrow> (error + real \<times> npfloat) \<times> 'd KSampleTest \<times> 'w" where
  "KSampleTest_test E self inputs reps workers w =
     (case k_sample_transform E inputs of
        Inl e \<Rightarrow> (Inl e, self, w)
      | Inr (u, v) \<Rightarrow>
     (let self1 = self\<lparr>self_u := Some u, self_v := Some v\<rparr> in
      case indep_statistic E (indep_test self1) u v w of
        (Inl e, obj, w2) \<Rightarrow> (Inl e, self1\<lparr>indep_test := obj\<rparr>, w2)
      | (Inr obs_stat, obj, w2) \<Rightarrow>
     (case MapWrapper workers of
        Inl e \<Rightarrow> (Inl e, self1\<lparr>indep_test := obj\<rparr>, w2)
      | Inr mapwrapper \<Rightarrow>
     (case reps of
        NonInt \<Rightarrow> (Inl TypeError, self1\<lparr>indep_test := obj\<rparr>, w2)
      | IntReps r \<Rightarrow>
     (case call_mapwrapper E mapwrapper (\<lambda>i s. KSampleTest_perm_stat E s i)
             [0..<nat r] (self1\<lparr>indep_test := obj\<rparr>) w2 of
        (Inl e, self3, w3) \<Rightarrow> (Inl e, self3, w3)
      | (Inr nd, self3, w3) \<Rightarrow>
     (let self4 = self3\<lparr>null_dist := Some nd\<rparr>;
          pv = true_divide (int (length (filter (\<lambda>v. v \<ge> obs_stat) nd))) r
      in if pv = Float 0
         then (if r = 0 then (Inl ZeroDivisionError, self4, w3)
               else (Inr (obs_stat, Float (1 / real_of_int r)),
                     self4\<lparr>pvalue := Some (Float (1 / real_of_int r))\<rparr>, w3))
         else (Inr (obs_stat, pv), self4\<lparr>pvalue := Some pv\<rparr>, w3)))))))"

section \<open>What the specification says, in its own words\<close>

text \<open>
  The HHG statistic of the spec, for \<open>n \<times> n\<close> matrices: the four cells count the points \<open>k\<close>
  by whether \<open>distx[i,k] \<le> distx[i,j]\<close> and whether \<open>disty[i,k] \<le> disty[i,j]\<close>, \<open>t11\<close> less
  2; \<open>S(i,j)\<close> is the chi-squared term, and 0 when its denominator is 0; the statistic is
  the sum of \<open>S(i,j)\<close> over the ordered pairs with \<open>i \<noteq> j\<close>.
\<close>

definition count_pts :: "nat \<Rightarrow> (nat \<Rightarrow> bool) \<Rightarrow> int" where
  "count_pts n P = int (length (filter P [0..<n]))"

definition S_spec :: "nat \<Rightarrow> array \<Rightarrow> array \<Rightarrow> nat \<Rightarrow> nat \<Rightarrow> real" where
  "S_spec n distx disty i j =
     (let inx = (\<lambda>k. distx ! i ! k \<le> distx ! i ! j);
          iny = (\<lambda>k. disty ! i ! k \<le> disty ! i ! j);
          t11 = count_pts n (\<lambda>k. inx k \<and> iny k) - 2;
          t12 = count_pts n (\<lambda>k. inx k \<and> \<not> iny k);
          t21 = count_pts n (\<lambda>k. \<not> inx k \<and> iny k);
          t22 = count_pts n (\<lambda>k. \<not> inx k \<and> \<not> iny k);
          denom = (t11 + t12) * (t21 + t22) * (t11 + t21) * (t12 + t22)
      in if denom = 0 then 0
         else real_of_int ((int n - 2) * (t12 * t21 - t11 * t22) ^ 2) / real_of_int denom)"

definition hhg_spec :: "nat \<Rightarrow> array \<Rightarrow> array \<Rightarrow> real" where
  "hhg_spec n distx disty = (\<Sum>i = 0..<n. \<Sum>j \<in> {0..<n} - {i}. S_spec n distx disty i j)"



definition permute_rc :: "nat list \<Rightarrow> array \<Rightarrow> array" where
  "permute_rc p d = map (\<lambda>i. map (\<lambda>j. d ! i ! j) p) p"

text \<open>
  The p-value of the spec: the number of entries of the null distribution that are at
  least the observed statistic, over \<open>reps\<close>; and \<open>1/reps\<close> when that fraction is 0.
\<close>

definition pvalue_spec :: "real list \<Rightarrow> real \<Rightarrow> int \<Rightarrow> real" where
  "pvalue_spec nd st r =
     (let raw = real (length (filter (\<lambda>v. st \<le> v) nd)) / real_of_int r
      in if raw = 0 then 1 / real_of_int r else raw)"

text \<open>
  The trace statistic test instantiated with a kernel in place of the distance metric:
  a \<^verbatim>\<open>Dcorr\<close> made with that metric, and its \<^verbatim>\<open>test\<close> run on the arguments (\<open>None\<close> for
  an argument left to its default). The result and the generator state are what the
  caller can see of it.
\<close>

definition Dcorr_test_with ::
  "('w, 'd) env \<Rightarrow> metric \<Rightarrow> pyarg \<Rightarrow> pyarg \<Rightarrow> pyreps option \<Rightarrow> int option \<Rightarrow> 'w
     \<Rightarrow> (error + real \<times> npfloat) \<times> 'w" where
  "Dcorr_test_with E k x y reps workers w =
     (case ext_new E Dcorr [(''compute_distance'', k)] of
        Inl e \<Rightarrow> (Inl e, w)
      | Inr dcorr \<Rightarrow>
          (case ext_test E dcorr x y reps workers w of (r, dcorr1, w1) \<Rightarrow> (r, w1)))"

text \<open>
  The invalid inputs of the spec: \<open>x\<close> or \<open>y\<close> is not a numeric array, the row counts
  differ, there are fewer than 3 samples, a value is NaN, \<open>reps\<close> is not a positive
  integer, or the metric is not callable where one is required.
\<close>

definition invalid_input :: "pyarg \<Rightarrow> pyarg \<Rightarrow> pyreps \<Rightarrow> metric \<Rightarrow> bool" where
  "invalid_input x y reps m =
     (case (x, y) of
        (Ndarray ax, Ndarray ay) \<Rightarrow>
          length ax \<noteq> length ay \<or> length ax < 3 \<or> contains_nan ax \<or> contains_nan ay
          \<or> (case reps of NonInt \<Rightarrow> True | IntReps r \<Rightarrow> r \<le> 0)
          \<or> (case m of NotCallable b \<Rightarrow> True | MetricNone \<Rightarrow> False | Callable f \<Rightarrow> False)
      | _ \<Rightarrow> True)"

section \<open>Auxiliary definitions for the proofs about the statistic\<close>

text \<open>
  The value that the loop body assigns to \<open>S[i, j]\<close>, if it assigns one; the assignment
  itself; the entry of \<open>S\<close> after the loops; the indicator of \<open>d[i,k] \<le> d[i,j]\<close>; and the
  value assigned, from two indicator rows.
\<close>

definition hhg_assign :: "nat \<Rightarrow> array \<Rightarrow> array \<Rightarrow> nat \<Rightarrow> nat \<Rightarrow> real option" where
  "hhg_assign n distx disty i j =
     (if i \<noteq> j then
        (let a = row_le (distx ! i) (distx ! i ! j);
             b = row_le (disty ! i) (disty ! i ! j);
             t11 = sum_list (times_arr a b) - 2;
             t12 = sum_list (times_arr a (one_minus b));
             t21 = sum_list (times_arr (one_minus a) b);
             t22 = sum_list (times_arr (one_minus a) (one_minus b));
             denom = (t11 + t12) * (t21 + t22) * (t11 + t21) * (t12 + t22)
         in if denom > 0
            then Some (real_of_int ((int n - 2) * (t12 * t21 - t11 * t22) ^ 2) / real_of_int denom)
            else None)
      else None)"

definition put :: "(nat \<Rightarrow> nat \<Rightarrow> real option) \<Rightarrow> nat \<Rightarrow> nat \<Rightarrow> array \<Rightarrow> array" where
  "put e i j S = (case e i j of None \<Rightarrow> S | Some v \<Rightarrow> S[i := (S ! i)[j := v]])"

definition entry :: "(nat \<Rightarrow> nat \<Rightarrow> real option) \<Rightarrow> nat \<Rightarrow> nat \<Rightarrow> real" where
  "entry e i j = (case e i j of None \<Rightarrow> 0 | Some v \<Rightarrow> v)"

definition ind :: "array \<Rightarrow> nat \<Rightarrow> nat \<Rightarrow> nat \<Rightarrow> int" where
  "ind d i j k = of_bool (d ! i ! k \<le> d ! i ! j)"

definition cell :: "nat \<Rightarrow> (nat \<Rightarrow> int) \<Rightarrow> (nat \<Rightarrow> int) \<Rightarrow> real option" where
  "cell n a b =
     (let t11 = (\<Sum>k = 0..<n. a k * b k) - 2;
          t12 = (\<Sum>k = 0..<n. a k * (1 - b k));
          t21 = (\<Sum>k = 0..<n. (1 - a k) * b k);
          t22 = (\<Sum>k = 0..<n. (1 - a k) * (1 - b k));
          denom = (t11 + t12) * (t21 + t22) * (t11 + t21) * (t12 + t22)
      in if denom > 0
         then Some (real_of_int ((int n - 2) * (t12 * t21 - t11 * t22) ^ 2) / real_of_int denom)
         else None)"

section \<open>Concrete inputs\<close>

text \<open>
  Two distance matrices of four points on a line, and an environment in which the model
  runs: the generator state is a counter, the permutation drawn rotates the rows by the
  counter, the metrics are for one-column samples, and the absent test classes have one
  instance, whose statistic is the sum of the products of the first columns. The k-sample
  test object holds such an instance.
\<close>

definition X4 :: array where
  "X4 = [[0, 1, 3, 4], [1, 0, 2, 3], [3, 2, 0, 1], [4, 3, 1, 0]]"

definition Y4 :: array where
  "Y4 = [[0, 2, 1, 5], [2, 0, 1, 3], [1, 1, 0, 4], [5, 3, 4, 0]]"

definition example_env :: "(nat, unit) env" where
  "example_env =
     \<lparr>permutation = (\<lambda>x w. (rotate w x, Suc w)),
      pool_state = (\<lambda>w i. w + i),
      euclidean = (\<lambda>x. map (\<lambda>r. map (\<lambda>s. \<bar>hd r - hd s\<bar>) x) x),
      rbf_kernel = (\<lambda>x. map (\<lambda>r. map (\<lambda>s. if r = s then 1 else 0) x) x),
      k_sample_transform =
        (\<lambda>inputs. Inr (concat inputs,
                        concat (map (\<lambda>(g, rows). map (\<lambda>r. [real g]) rows) (enumerate 0 inputs)))),
      ext_new = (\<lambda>c kwargs. Inr ()),
      ext_statistic = (\<lambda>d u v w. (Inr (sum_list (map2 (\<lambda>a b. hd a * hd b) u v)), d, w)),
      ext_test = (\<lambda>d x y reps workers w. (Inr (0, Float 1), d, w))\<rparr>"

definition example_ksample :: "unit KSampleTest" where
  "example_ksample =
     \<lparr>stat = None, pvalue = None, compute_distance = Callable (euclidean example_env),
      indep_test = Ext_obj (),
      self_u = None, self_v = None, null_dist = None\<rparr>"

definition example_inputs :: "array list" where
  "example_inputs = [[[0], [1], [2]], [[1], [5], [6]]]"

text \<open>
  The inputs of the examples in the docstring of \<^verbatim>\<open>HHG.test\<close>: the Euclidean distance matrix
  of \<^verbatim>\<open>np.arange(7)\<close>, and \<^verbatim>\<open>np.ones((n, n)) - np.identity(n)\<close>. And a similarity matrix,
  whose diagonal is not zero.
\<close>

definition arange7_dist :: array where
  "arange7_dist = map (\<lambda>i. map (\<lambda>j. \<bar>real i - real j\<bar>) [0..<7]) [0..<7]"

definition ones_minus_identity :: "nat \<Rightarrow> array" where
  "ones_minus_identity n = map (\<lambda>i. map (\<lambda>j. if i = j then 0 else 1) [0..<n]) [0..<n]"

definition K4 :: array where
  "K4 = [[9, 1, 3, 4], [1, 9, 2, 3], [3, 2, 9, 1], [4, 3, 1, 9]]"

section \<open>The loops of the statistic in closed form\<close>

lemma hhg_body_put: "hhg_body n dx dy i j S = put (hhg_assign n dx dy) i j S"
  by (simp add: hhg_body_def hhg_assign_def put_def Let_def)

lemma put_square: "is_square n S \<Longrightarrow> is_square n (put e i j S)"
proof (cases "i < length S")
  case True
  assume sq: "is_square n S"
  with True have "length (S ! i) = n" by (simp add: is_square_def)
  with sq show ?thesis
    unfolding is_square_def put_def
    by (auto split: option.splits dest!: set_update_subset_insert[THEN subsetD])
next
  case False
  assume "is_square n S"
  with False show ?thesis by (simp add: put_def list_update_beyond split: option.splits)
qed

lemma put_nth:
  assumes "is_square n S" "i' < n" "j' < n" "i < n" "j < n"
  shows "put e i j S ! i' ! j' =
           (if i' = i \<and> j' = j then (case e i j of None \<Rightarrow> S ! i ! j | Some v \<Rightarrow> v) else S ! i' ! j')"
  using assms unfolding is_square_def put_def
  by (auto split: option.splits simp: nth_list_update)

lemma fold_put_square: "is_square n S \<Longrightarrow> is_square n (fold (put e i) js S)"
  by (induction js arbitrary: S) (auto simp: put_square)

lemma fold_put_nth:
  assumes "is_square n S" "i' < n" "j' < n" "i < n" "\<forall>j \<in> set js. j < n"
  shows "fold (put e i) js S ! i' ! j' =
           (if i' = i \<and> j' \<in> set js then (case e i j' of None \<Rightarrow> S ! i ! j' | Some v \<Rightarrow> v) else S ! i' ! j')"
  using assms
proof (induction js arbitrary: S)
  case Nil
  then show ?case by simp
next
  case (Cons j js)
  have sq: "is_square n (put e i j S)" using Cons.prems(1) by (rule put_square)
  have "fold (put e i) (j # js) S ! i' ! j' = fold (put e i) js (put e i j S) ! i' ! j'" by simp
  also have "\<dots> = (if i' = i \<and> j' \<in> set js
        then (case e i j' of None \<Rightarrow> put e i j S ! i ! j' | Some v \<Rightarrow> v) else put e i j S ! i' ! j')"
    using Cons.IH[OF sq] Cons.prems by simp
  finally show ?case
    using Cons.prems by (auto simp: put_nth[OF Cons.prems(1)] split: option.splits)
qed

lemma fold_fold_put_square:
  "is_square n S \<Longrightarrow> is_square n (fold (\<lambda>i. fold (put e i) js) is S)"
  by (induction "is" arbitrary: S) (auto simp: fold_put_square)

lemma fold_fold_put_nth:
  assumes "is_square n S" "i' < n" "j' < n" "\<forall>i \<in> set is. i < n" "\<forall>j \<in> set js. j < n"
  shows "fold (\<lambda>i. fold (put e i) js) is S ! i' ! j' =
           (if i' \<in> set is \<and> j' \<in> set js then (case e i' j' of None \<Rightarrow> S ! i' ! j' | Some v \<Rightarrow> v)
            else S ! i' ! j')"
  using assms
proof (induction "is" arbitrary: S)
  case Nil
  then show ?case by simp
next
  case (Cons i "is")
  have sq: "is_square n (fold (put e i) js S)" using Cons.prems(1) by (rule fold_put_square)
  have i: "i < n" using Cons.prems by simp
  show ?case
    using Cons.IH[OF sq] Cons.prems
    by (auto simp: fold_put_nth[OF Cons.prems(1) _ _ i] split: option.splits)
qed

lemma zeros_square: "is_square n (replicate n (replicate n 0))"
  by (simp add: is_square_def)

lemma sum_list_square:
  assumes "is_square n S"
  shows "sum_list (map sum_list S) = (\<Sum>i = 0..<n. \<Sum>j = 0..<n. S ! i ! j)"
proof -
  have "sum_list (map sum_list S) = (\<Sum>i = 0..<n. sum_list (S ! i))"
    using assms by (simp add: sum_list_sum_nth is_square_def)
  also have "\<dots> = (\<Sum>i = 0..<n. \<Sum>j = 0..<n. S ! i ! j)"
    using assms by (intro sum.cong refl) (simp add: sum_list_sum_nth is_square_def)
  finally show ?thesis .
qed

lemma hhg_sum:
  "hhg dx dy = (\<Sum>i = 0..<length dx. \<Sum>j = 0..<length dx. entry (hhg_assign (length dx) dx dy) i j)"
proof -
  define n where "n = length dx"
  define e where "e = hhg_assign n dx dy"
  define S where "S = fold (\<lambda>i. fold (put e i) [0..<n]) [0..<n] (replicate n (replicate n 0))"
  have sq: "is_square n S"
    unfolding S_def by (rule fold_fold_put_square[OF zeros_square])
  have nth: "S ! i ! j = entry e i j" if "i < n" "j < n" for i j
    unfolding S_def using that
    by (simp add: fold_fold_put_nth[OF zeros_square] entry_def split: option.splits)
  have "hhg dx dy = sum_list (map sum_list S)"
    by (simp add: hhg_def Let_def S_def e_def n_def hhg_body_put[abs_def])
  also have "\<dots> = (\<Sum>i = 0..<n. \<Sum>j = 0..<n. S ! i ! j)"
    by (rule sum_list_square[OF sq])
  also have "\<dots> = (\<Sum>i = 0..<n. \<Sum>j = 0..<n. entry e i j)"
    by (intro sum.cong refl) (simp add: nth)
  finally show ?thesis by (simp add: n_def e_def)
qed

lemma sum_list_times_arr:
  assumes "length a = n" "length b = n"
  shows "sum_list (times_arr a b) = (\<Sum>k = 0..<n. a ! k * b ! k)"
  using assms by (simp add: times_arr_def sum_list_sum_nth)

lemma row_le_nth: "k < length row \<Longrightarrow> row_le row v ! k = of_bool (row ! k \<le> v)"
  by (simp add: row_le_def)

lemma one_minus_nth: "k < length a \<Longrightarrow> one_minus a ! k = 1 - a ! k"
  by (simp add: one_minus_def)

lemma length_row_le [simp]: "length (row_le row v) = length row"
  by (simp add: row_le_def)

lemma length_one_minus [simp]: "length (one_minus a) = length a"
  by (simp add: one_minus_def)

lemma hhg_assign_cell:
  assumes "length (dx ! i) = n" "length (dy ! i) = n"
  shows "hhg_assign n dx dy i j = (if i \<noteq> j then cell n (ind dx i j) (ind dy i j) else None)"
proof -
  let ?a = "row_le (dx ! i) (dx ! i ! j)" and ?b = "row_le (dy ! i) (dy ! i ! j)"
  have a: "?a ! k = ind dx i j k" and b: "?b ! k = ind dy i j k" if "k < n" for k
    using that assms by (simp_all add: row_le_nth ind_def)
  have 1: "sum_list (times_arr ?a ?b) = (\<Sum>k = 0..<n. ind dx i j k * ind dy i j k)"
    using assms by (simp add: sum_list_times_arr[of _ n] a b)
  have 2: "sum_list (times_arr ?a (one_minus ?b)) = (\<Sum>k = 0..<n. ind dx i j k * (1 - ind dy i j k))"
    using assms by (simp add: sum_list_times_arr[of _ n] a b one_minus_nth)
  have 3: "sum_list (times_arr (one_minus ?a) ?b) = (\<Sum>k = 0..<n. (1 - ind dx i j k) * ind dy i j k)"
    using assms by (simp add: sum_list_times_arr[of _ n] a b one_minus_nth)
  have 4: "sum_list (times_arr (one_minus ?a) (one_minus ?b))
         = (\<Sum>k = 0..<n. (1 - ind dx i j k) * (1 - ind dy i j k))"
    using assms by (simp add: sum_list_times_arr[of _ n] a b one_minus_nth)
  show ?thesis
    by (simp only: hhg_assign_def cell_def Let_def 1 2 3 4)
qed

lemma cell_commute: "cell n a b = cell n b a"
  by (simp add: cell_def Let_def mult_ac add_ac)

section \<open>The HHG statistic: symmetry, permutation invariance, and the formula of the spec\<close>

text \<open>
  Claim C7: for two \<open>n \<times> n\<close> matrices the HHG statistic is symmetric in its arguments,
  \<open>hhg distx disty = hhg disty distx\<close>. The two arguments only change places in the cell
  counts \<open>t12\<close> and \<open>t21\<close>, so every entry of \<open>S\<close> is the same number; the matrices need
  not be symmetric themselves, nor be distances.
\<close>

theorem hhg_symmetric:
  assumes "is_square n dx" "is_square n dy"
  shows "hhg dx dy = hhg dy dx"
proof -
  have len: "length dx = n" "length dy = n" using assms by (simp_all add: is_square_def)
  have rows: "length (dx ! i) = n" "length (dy ! i) = n" if "i < n" for i
    using assms that by (simp_all add: is_square_def)
  have "entry (hhg_assign n dx dy) i j = entry (hhg_assign n dy dx) i j" if "i < n" for i j
    using rows[OF that] by (simp add: entry_def hhg_assign_cell cell_commute[of n "ind dx i j"])
  then show ?thesis
    unfolding hhg_sum len by (intro sum.cong refl) simp
qed

theorem hhg_symmetric_witness:
  "is_square 4 X4 \<and> is_square 4 Y4 \<and> is_symmetric X4 \<and> is_symmetric Y4 \<and> hhg X4 Y4 = hhg Y4 X4"
proof -
  have x: "is_square 4 X4" and y: "is_square 4 Y4" by code_simp+
  have "is_symmetric X4" "is_symmetric Y4" by code_simp+
  with x y hhg_symmetric[OF x y] show ?thesis by simp
qed





lemma permute_rc_square: "length p = n \<Longrightarrow> is_square n (permute_rc p d)"
  by (auto simp: is_square_def permute_rc_def)
















text \<open>
  Outside the distance matrices the two differ: where a diagonal entry is above an entry
  of its row, a cell count is negative, the denominator can be negative, and the code
  leaves \<open>S[i,j] = 0\<close> where the formula of the spec is not 0.
\<close>

lemma hhg_differs_off_distances: "hhg K4 Y4 \<noteq> hhg_spec 4 K4 Y4"
  by code_simp

text \<open>The statistics of the two examples in the docstring of \<^verbatim>\<open>HHG.test\<close>: 160.0 and 0.0.\<close>

lemma hhg_arange7: "hhg arange7_dist arange7_dist = 160"
  by code_simp

lemma hhg_ones_minus_identity:
  "hhg (ones_minus_identity 10) (map (map (\<lambda>v. 2 * v)) (ones_minus_identity 10)) = 0"
  by code_simp

section \<open>The permutation test: the null distribution and the p-value\<close>

lemma builtin_map_length:
  "builtin_map f idxs self w = (Inr vs, self', w') \<Longrightarrow> length vs = length idxs"
proof (induction idxs arbitrary: self w vs self' w')
  case Nil
  then show ?case by simp
next
  case (Cons i idxs)
  then show ?case
    by (auto split: prod.splits sum.splits)
qed

lemma pool_map_length: "pool_map f idxs self ws = Inr vs \<Longrightarrow> length vs = length idxs"
proof (induction idxs arbitrary: vs)
  case Nil
  then show ?case by simp
next
  case (Cons i idxs)
  then show ?case
    by (auto split: prod.splits sum.splits)
qed

lemma call_mapwrapper_length:
  "call_mapwrapper E mw f idxs self w = (Inr vs, self', w') \<Longrightarrow> length vs = length idxs"
  by (auto simp: call_mapwrapper_def split: mapfunc.splits dest: builtin_map_length pool_map_length)



lemma pvalue_spec_range:
  assumes "1 \<le> r" "length nd = nat r"
  shows "1 / real_of_int r \<le> pvalue_spec nd st r" "pvalue_spec nd st r \<le> 1"  "pvalue_spec nd st r \<noteq> 0"
proof -
  define c where "c = length (filter (\<lambda>v. st \<le> v) nd)"
  have cr: "real c \<le> real_of_int r"
    using assms length_filter_le[of "\<lambda>v. st \<le> v" nd] by (simp add: c_def)
  have rpos: "0 < real_of_int r" using assms by simp
  have p: "pvalue_spec nd st r = (if c = 0 then 1 / real_of_int r else real c / real_of_int r)"
    using rpos by (simp add: pvalue_spec_def c_def Let_def)
  show "1 / real_of_int r \<le> pvalue_spec nd st r"
    unfolding p using rpos by (auto simp: divide_le_cancel field_simps)
  show "pvalue_spec nd st r \<le> 1"
    unfolding p using rpos cr assms by (auto simp: field_simps)
  show "pvalue_spec nd st r \<noteq> 0"
    unfolding p using rpos by auto
qed

lemma IndependenceTest_test_success:
  assumes "IndependenceTest_test E statistic self x y reps workers w = (Inr (st, pv), self', w')"
  shows "\<exists>r nd. reps = IntReps r \<and> IndependenceTest.null_dist self' = Some nd \<and> length nd = nat r
           \<and> IndependenceTest.pvalue self' = Some pv \<and> (r \<noteq> 0 \<longrightarrow> pv = Float (pvalue_spec nd st r))"
  using assms
  unfolding IndependenceTest_test_def Let_def
  by (auto simp: true_divide_def pvalue_spec_def Let_def
      split: prod.splits sum.splits pyreps.splits if_splits dest!: call_mapwrapper_length)

lemma KSampleTest_test_success:
  assumes "KSampleTest_test E self inputs reps workers w = (Inr (st, pv), self', w')"
  shows "\<exists>r nd. reps = IntReps r \<and> KSampleTest.null_dist self' = Some nd \<and> length nd = nat r
           \<and> KSampleTest.pvalue self' = Some pv \<and> (r \<noteq> 0 \<longrightarrow> pv = Float (pvalue_spec nd st r))"
  using assms
  unfolding KSampleTest_test_def Let_def
  by (auto simp: true_divide_def pvalue_spec_def Let_def
      split: prod.splits sum.splits pyreps.splits if_splits dest!: call_mapwrapper_length)

lemma HHG_statistic_distance:
  "is_distance self \<Longrightarrow> HHG_statistic self x y w = (Inr (hhg x y), self\<lparr>IndependenceTest.stat := Some (hhg x y)\<rparr>, w)"
  by (simp add: HHG_statistic_def)

lemma builtin_map_returns:
  assumes step: "\<And>i s w. P s \<Longrightarrow> \<exists>v s' w'. f i s w = (Inr v, s', w') \<and> P s'"
  shows "P s \<Longrightarrow> \<exists>vs s' w'. builtin_map f idxs s w = (Inr vs, s', w') \<and> P s'"
proof (induction idxs arbitrary: s w)
  case Nil
  then show ?case by simp
next
  case (Cons i idxs)
  from step[OF Cons.prems, of i w] obtain v s1 w1 where 1: "f i s w = (Inr v, s1, w1)" "P s1"
    by blast
  from Cons.IH[OF 1(2), of w1] obtain vs s2 w2 where 2: "builtin_map f idxs s1 w1 = (Inr vs, s2, w2)" "P s2"
    by blast
  from 1 2 show ?case by simp
qed

lemma pool_map_returns:
  assumes step: "\<And>i w. \<exists>v s' w'. f i s w = (Inr v, s', w')"
  shows "\<exists>vs. pool_map f idxs s ws = Inr vs"
proof (induction idxs)
  case Nil
  then show ?case by simp
next
  case (Cons i idxs)
  from step[of i "ws i"] obtain v s1 w1 where 1: "f i s (ws i) = (Inr v, s1, w1)" by blast
  from Cons.IH obtain vs where 2: "pool_map f idxs s ws = Inr vs" by blast
  from 1 2 show ?case by simp
qed

lemma perm_stat_HHG_distance:
  assumes "self_x s = Some x" "self_y s = Some y" "is_distance s"
  shows "\<exists>v s' w'. IndependenceTest_perm_stat E HHG_statistic s i w = (Inr v, s', w')
           \<and> (self_x s' = Some x \<and> self_y s' = Some y \<and> is_distance s')"
  using assms
  by (auto simp: IndependenceTest_perm_stat_def HHG_statistic_distance split: prod.splits)

text \<open>
  The test of the base class with the HHG statistic on arrays that are already distance
  matrices raises nothing: for \<open>workers\<close> that is \<open>-1\<close> or at least \<open>1\<close> it returns the HHG
  statistic of its arguments and a p-value, whatever the generator draws.
\<close>

lemma HHG_distance_test_returns:
  fixes self :: "'a HHG_scheme" and E :: "('w, 'd) env"
  assumes d: "is_distance self" and wk: "workers = - 1 \<or> 1 \<le> workers"
  shows "\<exists>pv self' w'. IndependenceTest_test E HHG_statistic self x y (IntReps r) workers w
           = (Inr (hhg x y, pv), self', w')"
proof -
  define s2 where "s2 = self\<lparr>self_x := Some x, self_y := Some y, IndependenceTest.stat := Some (hhg x y)\<rparr>"
  define P where "P s \<longleftrightarrow> self_x s = Some x \<and> self_y s = Some y \<and> is_distance s" for s :: "'a HHG_scheme"
  define f :: "nat \<Rightarrow> 'a HHG_scheme \<Rightarrow> 'w \<Rightarrow> (error + real) \<times> 'a HHG_scheme \<times> 'w"
    where "f = (\<lambda>i s. IndependenceTest_perm_stat E HHG_statistic s i)"
  have st: "HHG_statistic (self\<lparr>self_x := Some x, self_y := Some y\<rparr>) x y w = (Inr (hhg x y), s2, w)"
    using d by (simp add: HHG_statistic_distance s2_def)
  have P2: "P s2" using d by (simp add: P_def s2_def)
  have step: "\<exists>v s' w'. f i s w = (Inr v, s', w') \<and> P s'" if "P s" for i s w
    using that perm_stat_HHG_distance[of s x y E i w] by (simp add: P_def f_def)
  have "\<exists>mw. MapWrapper workers = Inr mw"
    using wk by (cases "workers = 1") (auto simp: MapWrapper_def)
  then obtain mw where mw: "MapWrapper workers = Inr mw" by blast
  have "\<exists>nd s3 w3. call_mapwrapper E mw f [0..<nat r] s2 w = (Inr nd, s3, w3)"
  proof (cases mw)
    case Builtin_map
    from builtin_map_returns[of P f, OF step P2, of "[0..<nat r]" w]
    show ?thesis by (auto simp: call_mapwrapper_def Builtin_map)
  next
    case Pool_map
    have "\<exists>v s' w'. f i s2 w = (Inr v, s', w')" for i w
      using step[OF P2, of i w] by blast
    from pool_map_returns[of f s2, OF this, of "[0..<nat r]" "pool_state E w"]
    show ?thesis by (auto simp: call_mapwrapper_def Pool_map)
  qed
  then obtain nd s3 w3 where run: "call_mapwrapper E mw f [0..<nat r] s2 w = (Inr nd, s3, w3)"
    by blast
  have len: "length nd = nat r"
    using call_mapwrapper_length[OF run] by simp
  have z: "r = 0 \<Longrightarrow> true_divide (int (length (filter (\<lambda>v. hhg x y \<le> v) nd))) r \<noteq> Float 0"
    by (simp add: true_divide_def)
  show ?thesis
    unfolding IndependenceTest_test_def Let_def st using mw run z
    by (auto simp: f_def[symmetric])
qed

text \<open>
  Two runs of the model: the test of the base class with the HHG statistic on two
  distance matrices, three trials in the calling process; and the k-sample test on two
  groups of three samples, two trials in a pool.
\<close>

lemma example_run_indep:
  "fst (IndependenceTest_test example_env HHG_statistic (HHG_init MetricNone) X4 Y4 (IntReps 3) 1 0)
     = Inr (2, Float (2 / 3))"
  by code_simp

lemma example_run_ksample:
  "fst (KSampleTest_test example_env example_ksample example_inputs (IntReps 2) (- 1) 0)
     = Inr (12, Float (1 / 2))"
  by code_simp

lemma example_run_indep_full:
  "\<exists>s1 w1. IndependenceTest_test example_env HHG_statistic (HHG_init MetricNone) X4 Y4 (IntReps 3) 1 0
      = (Inr (2, Float (2 / 3)), s1, w1)"
  using example_run_indep
  by (cases "IndependenceTest_test example_env HHG_statistic (HHG_init MetricNone) X4 Y4 (IntReps 3) 1 0")
    auto

lemma example_run_ksample_full:
  "\<exists>s2 w2. KSampleTest_test example_env example_ksample example_inputs (IntReps 2) (- 1) 0
      = (Inr (12, Float (1 / 2)), s2, w2)"
  using example_run_ksample
  by (cases "KSampleTest_test example_env example_ksample example_inputs (IntReps 2) (- 1) 0") auto

text \<open>
  Claim C1: a run of \<^verbatim>\<open>test\<close> with \<open>reps \<ge> 1\<close> that returns, returns as p-value the number
  of entries of the stored null distribution that are at least the returned statistic,
  over \<open>reps\<close>, and \<open>1/reps\<close> when that fraction is 0; the p-value lies in \<open>[1/reps, 1]\<close> and
  is not 0. It holds for the test of \<^verbatim>\<open>IndependenceTest\<close>, whatever the statistic of the
  subclass, and for the test of \<^verbatim>\<open>KSampleTest\<close>. The division is exact here.
\<close>

theorem test_pvalue:
  "(IndependenceTest_test E statistic self x y (IntReps r) workers w = (Inr (st, pv), self', w')
      \<and> 1 \<le> r \<longrightarrow>
    (\<exists>nd. IndependenceTest.null_dist self' = Some nd \<and> pv = Float (pvalue_spec nd st r)
          \<and> 1 / real_of_int r \<le> pvalue_spec nd st r \<and> pvalue_spec nd st r \<le> 1
          \<and> pvalue_spec nd st r \<noteq> 0))
   \<and> (KSampleTest_test E' kself inputs (IntReps k) kworkers kw = (Inr (kst, kpv), kself', kw')
      \<and> 1 \<le> k \<longrightarrow>
    (\<exists>nd. KSampleTest.null_dist kself' = Some nd \<and> kpv = Float (pvalue_spec nd kst k)
          \<and> 1 / real_of_int k \<le> pvalue_spec nd kst k \<and> pvalue_spec nd kst k \<le> 1
          \<and> pvalue_spec nd kst k \<noteq> 0))"
proof (intro conjI impI)
  assume "IndependenceTest_test E statistic self x y (IntReps r) workers w = (Inr (st, pv), self', w')
      \<and> 1 \<le> r"
  then have run: "IndependenceTest_test E statistic self x y (IntReps r) workers w = (Inr (st, pv), self', w')"
    and r: "1 \<le> r" by simp_all
  from IndependenceTest_test_success[OF run] r obtain nd
    where nd: "IndependenceTest.null_dist self' = Some nd" "length nd = nat r"
      "pv = Float (pvalue_spec nd st r)" by auto
  from nd pvalue_spec_range[OF r nd(2), of st]
  show "\<exists>nd. IndependenceTest.null_dist self' = Some nd \<and> pv = Float (pvalue_spec nd st r)
          \<and> 1 / real_of_int r \<le> pvalue_spec nd st r \<and> pvalue_spec nd st r \<le> 1
          \<and> pvalue_spec nd st r \<noteq> 0"
    by blast
next
  assume "KSampleTest_test E' kself inputs (IntReps k) kworkers kw = (Inr (kst, kpv), kself', kw')
      \<and> 1 \<le> k"
  then have run: "KSampleTest_test E' kself inputs (IntReps k) kworkers kw = (Inr (kst, kpv), kself', kw')"
    and k: "1 \<le> k" by simp_all
  from KSampleTest_test_success[OF run] k obtain nd
    where nd: "KSampleTest.null_dist kself' = Some nd" "length nd = nat k"
      "kpv = Float (pvalue_spec nd kst k)" by auto
  from nd pvalue_spec_range[OF k nd(2), of kst]
  show "\<exists>nd. KSampleTest.null_dist kself' = Some nd \<and> kpv = Float (pvalue_spec nd kst k)
          \<and> 1 / real_of_int k \<le> pvalue_spec nd kst k \<and> pvalue_spec nd kst k \<le> 1
          \<and> pvalue_spec nd kst k \<noteq> 0"
    by blast
qed

theorem test_pvalue_witness:
  "(\<exists>nd. IndependenceTest.null_dist (fst (snd (IndependenceTest_test example_env HHG_statistic
              (HHG_init MetricNone) X4 Y4 (IntReps 3) 1 0))) = Some nd
        \<and> pvalue_spec nd 2 3 = 2 / 3)
   \<and> (\<exists>nd. KSampleTest.null_dist (fst (snd (KSampleTest_test example_env example_ksample
              example_inputs (IntReps 2) (- 1) 0))) = Some nd
        \<and> pvalue_spec nd 12 2 = 1 / 2)"
proof -
  obtain s1 w1 where r1: "IndependenceTest_test example_env HHG_statistic (HHG_init MetricNone)
      X4 Y4 (IntReps 3) 1 0 = (Inr (2, Float (2 / 3)), s1, w1)"
    using example_run_indep_full by blast
  obtain s2 w2 where r2: "KSampleTest_test example_env example_ksample example_inputs (IntReps 2) (- 1) 0
      = (Inr (12, Float (1 / 2)), s2, w2)"
    using example_run_ksample_full by blast
  note t = test_pvalue[where E = example_env and statistic = HHG_statistic and self = "HHG_init MetricNone"
      and x = X4 and y = Y4 and r = 3 and workers = 1 and w = 0 and st = 2 and pv = "Float (2 / 3)"
      and self' = s1 and w' = w1 and E' = example_env and kself = example_ksample
      and inputs = example_inputs and k = 2 and kworkers = "- 1" and kw = 0 and kst = 12
      and kpv = "Float (1 / 2)" and kself' = s2 and kw' = w2]
  from t r1 obtain nd1 where n1: "IndependenceTest.null_dist s1 = Some nd1"
    "Float (2 / 3) = Float (pvalue_spec nd1 2 3)" by auto
  from t r2 obtain nd2 where n2: "KSampleTest.null_dist s2 = Some nd2"
    "Float (1 / 2) = Float (pvalue_spec nd2 12 2)" by auto
  from n1 n2 show ?thesis unfolding r1 r2 by auto
qed

text \<open>
  Claim C6: a run of \<^verbatim>\<open>test\<close> with \<open>reps \<ge> 1\<close> that returns, has stored a null distribution
  of exactly \<open>reps\<close> entries, one statistic per trial; for \<^verbatim>\<open>IndependenceTest\<close> and for
  \<^verbatim>\<open>KSampleTest\<close>.
\<close>

theorem null_dist_has_reps_entries:
  "(IndependenceTest_test E statistic self x y (IntReps r) workers w = (Inr res, self', w')
      \<and> 1 \<le> r \<longrightarrow>
    (\<exists>nd. IndependenceTest.null_dist self' = Some nd \<and> int (length nd) = r))
   \<and> (KSampleTest_test E' kself inputs (IntReps k) kworkers kw = (Inr kres, kself', kw')
      \<and> 1 \<le> k \<longrightarrow>
    (\<exists>nd. KSampleTest.null_dist kself' = Some nd \<and> int (length nd) = k))"
proof (intro conjI impI)
  assume a: "IndependenceTest_test E statistic self x y (IntReps r) workers w = (Inr res, self', w')
      \<and> 1 \<le> r"
  obtain st pv where res: "res = (st, pv)" by (cases res)
  from a res IndependenceTest_test_success[of E statistic self x y "IntReps r" workers w st pv self' w']
  show "\<exists>nd. IndependenceTest.null_dist self' = Some nd \<and> int (length nd) = r"
    by auto
next
  assume a: "KSampleTest_test E' kself inputs (IntReps k) kworkers kw = (Inr kres, kself', kw')
      \<and> 1 \<le> k"
  obtain st pv where res: "kres = (st, pv)" by (cases kres)
  from a res KSampleTest_test_success[of E' kself inputs "IntReps k" kworkers kw st pv kself' kw']
  show "\<exists>nd. KSampleTest.null_dist kself' = Some nd \<and> int (length nd) = k"
    by auto
qed

theorem null_dist_has_reps_entries_witness:
  "(\<exists>nd. IndependenceTest.null_dist (fst (snd (IndependenceTest_test example_env HHG_statistic
              (HHG_init MetricNone) X4 Y4 (IntReps 3) 1 0))) = Some nd \<and> int (length nd) = 3)
   \<and> (\<exists>nd. KSampleTest.null_dist (fst (snd (KSampleTest_test example_env example_ksample
              example_inputs (IntReps 2) (- 1) 0))) = Some nd \<and> int (length nd) = 2)"
proof -
  obtain s1 w1 where r1: "IndependenceTest_test example_env HHG_statistic (HHG_init MetricNone)
      X4 Y4 (IntReps 3) 1 0 = (Inr (2, Float (2 / 3)), s1, w1)"
    using example_run_indep_full by blast
  obtain s2 w2 where r2: "KSampleTest_test example_env example_ksample example_inputs (IntReps 2) (- 1) 0
      = (Inr (12, Float (1 / 2)), s2, w2)"
    using example_run_ksample_full by blast
  note t = null_dist_has_reps_entries[where E = example_env and statistic = HHG_statistic
      and self = "HHG_init MetricNone" and x = X4 and y = Y4 and r = 3 and workers = 1 and w = 0
      and res = "(2, Float (2 / 3))" and self' = s1 and w' = w1 and E' = example_env
      and kself = example_ksample and inputs = example_inputs and k = 2 and kworkers = "- 1"
      and kw = 0 and kres = "(12, Float (1 / 2))" and kself' = s2 and kw' = w2]
  from t r1 obtain nd1 where n1: "IndependenceTest.null_dist s1 = Some nd1" "int (length nd1) = 3"
    by auto
  from t r2 obtain nd2 where n2: "KSampleTest.null_dist s2 = Some nd2" "int (length nd2) = 2"
    by auto
  from n1 n2 show ?thesis unfolding r1 r2 by auto
qed

section \<open>The Hsic test\<close>

text \<open>
  Claim C4: \<^verbatim>\<open>Hsic.test\<close> returns what the test of a \<^verbatim>\<open>Dcorr\<close> made with the kernel as its
  metric returns on the same arguments, an exception included, and leaves the generator
  where that test leaves it; \<^verbatim>\<open>Hsic._statistic\<close> returns the statistic of such a test run
  with the default \<open>reps\<close> and \<open>workers\<close>.
\<close>

theorem Hsic_test_delegates:
  "(case Hsic_test E self x y reps workers w of (res, self', w') \<Rightarrow> (res, w'))
     = Dcorr_test_with E (compute_kernel self) x y (Some reps) (Some workers) w
   \<and> (case Hsic_statistic E self x y w of (res, self', w') \<Rightarrow> (res, w'))
     = (case Dcorr_test_with E (compute_kernel self) x y None None w of
          (res, w') \<Rightarrow> (map_sum id fst res, w'))"
  by (simp add: Hsic_test_def Hsic_statistic_def Dcorr_test_with_def split: sum.splits prod.splits)

text \<open>
  Claim C5, on a \<^verbatim>\<open>Hsic\<close> object: whatever the \<^verbatim>\<open>Dcorr\<close> test does, a \<^verbatim>\<open>Hsic\<close> object fresh
  from its initialiser has no \<^verbatim>\<open>null_dist\<close> after \<^verbatim>\<open>test\<close>. The null distribution is an
  attribute of the \<^verbatim>\<open>Dcorr\<close> object that \<^verbatim>\<open>Hsic.test\<close> makes and drops; of its results only
  \<open>stat\<close> and \<open>pvalue\<close> are copied to the \<^verbatim>\<open>Hsic\<close> object. The test of the base class,
  which \<^verbatim>\<open>HHG.test\<close> calls, does store it.
\<close>

theorem Hsic_test_stores_no_null_dist:
  "IndependenceTest.null_dist (fst (snd (Hsic_test E (Hsic_init k) x y reps workers w))) = None"
  by (simp add: Hsic_test_def Hsic_init_def split: sum.splits prod.splits)

text \<open>A run of \<^verbatim>\<open>Hsic.test\<close> that returns: the object afterwards is the fresh one with
  \<open>stat\<close> and \<open>pvalue\<close> set.\<close>

lemma Hsic_example_run:
  "Hsic_test example_env (Hsic_init MetricNone) (as_arg X4) (as_arg Y4) (IntReps 1000) (- 1) 0
     = (Inr (0, Float 1),
        (Hsic_init MetricNone)\<lparr>IndependenceTest.stat := Some 0, IndependenceTest.pvalue := Some (Float 1)\<rparr>, 0)"
  by (simp add: Hsic_test_def example_env_def)

section \<open>Validation comes first in the HHG test\<close>

text \<open>
  Claim C9, for \<^verbatim>\<open>HHG.test\<close> with the validator modelled from the spec: on an invalid input
  the call raises ValueError, the object is as it was (no \<open>x\<close>, \<open>y\<close>, \<open>stat\<close>, \<open>pvalue\<close> or
  \<open>null_dist\<close> is stored) and so is the generator: no statistic was computed and no
  permutation drawn. Nothing but the exception is returned.
\<close>

theorem HHG_test_validates_first:
  assumes "IndependenceTest.compute_distance self = Some m" and "invalid_input x y reps m"
  shows "HHG_test E self x y reps workers w = (Inl ValueError, self, w)"
  using assms
  by (auto simp: HHG_test_def CheckInputs_def invalid_input_def
      split: pyarg.splits pyreps.splits metric.splits)

theorem HHG_test_validates_first_witness:
  "HHG_test example_env (HHG_init (Callable (euclidean example_env)))
       NotArray (as_arg X4) (IntReps 1000) (- 1) 0
     = (Inl ValueError, HHG_init (Callable (euclidean example_env)), 0)
   \<and> HHG_test example_env (HHG_init (Callable (euclidean example_env)))
       (Ndarray [[Float 0], [Float 1], [Float 2], [NaN]]) (as_arg X4) (IntReps 1000) (- 1) 0
     = (Inl ValueError, HHG_init (Callable (euclidean example_env)), 0)
   \<and> HHG_test example_env (HHG_init (Callable (euclidean example_env)))
       (as_arg X4) (as_arg [[0], [1], [2]]) (IntReps 1000) (- 1) 0
     = (Inl ValueError, HHG_init (Callable (euclidean example_env)), 0)
   \<and> HHG_test example_env (HHG_init (Callable (euclidean example_env)))
       (as_arg [[0], [1]]) (as_arg [[0], [1]]) (IntReps 1000) (- 1) 0
     = (Inl ValueError, HHG_init (Callable (euclidean example_env)), 0)
   \<and> HHG_test example_env (HHG_init (Callable (euclidean example_env)))
       (as_arg X4) (as_arg Y4) (IntReps (- 1)) (- 1) 0
     = (Inl ValueError, HHG_init (Callable (euclidean example_env)), 0)
   \<and> HHG_test example_env (HHG_init (Callable (euclidean example_env)))
       (as_arg X4) (as_arg Y4) NonInt (- 1) 0
     = (Inl ValueError, HHG_init (Callable (euclidean example_env)), 0)
   \<and> HHG_test example_env (HHG_init (NotCallable True))
       (as_arg X4) (as_arg Y4) (IntReps 1000) (- 1) 0
     = (Inl ValueError, HHG_init (NotCallable True), 0)"
proof -
  let ?m = "Callable (euclidean example_env)"
  have m: "IndependenceTest.compute_distance (HHG_init k) = Some k" for k
    by (simp add: HHG_init_def)
  have 1: "invalid_input NotArray (as_arg X4) (IntReps 1000) ?m"
    by (simp add: invalid_input_def)
  have 2: "invalid_input (Ndarray [[Float 0], [Float 1], [Float 2], [NaN]]) (as_arg X4) (IntReps 1000) ?m"
    by (simp add: invalid_input_def as_arg_def contains_nan_def X4_def)
  have 3: "invalid_input (as_arg X4) (as_arg [[0], [1], [2]]) (IntReps 1000) ?m"
    by (simp add: invalid_input_def as_arg_def X4_def)
  have 4: "invalid_input (as_arg [[0], [1]]) (as_arg [[0], [1]]) (IntReps 1000) ?m"
    by (simp add: invalid_input_def as_arg_def)
  have 5: "invalid_input (as_arg X4) (as_arg Y4) (IntReps (- 1)) ?m"
    by (simp add: invalid_input_def as_arg_def)
  have 6: "invalid_input (as_arg X4) (as_arg Y4) NonInt ?m"
    by (simp add: invalid_input_def as_arg_def)
  have 7: "invalid_input (as_arg X4) (as_arg Y4) (IntReps 1000) (NotCallable True)"
    by (simp add: invalid_input_def as_arg_def)
  note t = HHG_test_validates_first[where E = example_env and workers = "- 1" and w = 0, OF m]
  show ?thesis
    using t[OF 1] t[OF 2] t[OF 3] t[OF 4] t[OF 5] t[OF 6] t[OF 7] by simp
qed

section \<open>A k-sample test cannot be made of Hsic\<close>

text \<open>
  Claim C10: \<^verbatim>\<open>KSampleTest.__init__\<close> with \<^verbatim>\<open>indep_test = Hsic\<close> raises TypeError, whatever
  the metric: \<^verbatim>\<open>Hsic\<close> is in the list of distance tests, so it is called with the keyword
  \<^verbatim>\<open>compute_distance\<close>, and the only keyword parameter of \<^verbatim>\<open>Hsic.__init__\<close> is
  \<^verbatim>\<open>compute_kernel\<close>. No instance exists on which a test could run.
\<close>

theorem KSampleTest_init_Hsic_TypeError:
  "KSampleTest_init E Hsic_class m = Inl TypeError"
  by (simp add: KSampleTest_init_def indep_new_def Hsic_new_def bind_kwargs_def)

text \<open>With \<^verbatim>\<open>HHG\<close>, whose initialiser has the parameter \<^verbatim>\<open>compute_distance\<close>, the same call
  makes the object.\<close>

lemma KSampleTest_init_HHG:
  "KSampleTest_init E HHG_class m =
     Inr \<lparr>stat = None, pvalue = None, compute_distance = m, indep_test = HHG_obj (HHG_init m),
          self_u = None, self_v = None, null_dist = None\<rparr>"
  by (simp add: KSampleTest_init_def indep_new_def HHG_new_def bind_kwargs_def)

end
